theory Spec2Isabelle
  imports Complex_Main "HOL-Library.Sublist"
begin

section \<open>Errors\<close>

text \<open>
  The notebooks never catch an exception: whatever is raised ends the run. The errors
  are named after the taxonomy of the specification:
  \<^item> \<open>DataFormatError\<close>: the CSV parser rejects the file (pandas \<^verbatim>\<open>ParserError\<close>,
    \<^verbatim>\<open>EmptyDataError\<close>);
  \<^item> \<open>ConfigurationError\<close>: the credential is missing (the \<^verbatim>\<open>TypeError\<close> of
    \<^verbatim>\<open>os.environ[k] = None\<close>);
  \<^item> \<open>ExternalCallError\<close>: the model collaborator failed;
  \<^item> \<open>OutOfRangeError\<close>: a row index beyond the table (\<^verbatim>\<open>IndexError\<close>).
\<close>

datatype error = DataFormatError | ConfigurationError | ExternalCallError | OutOfRangeError

section \<open>Data model\<close>

text \<open>
  A row of the benchmark table: the question, the answer options in order, and the
  letter of the right one. The data model asks for exactly four options and a letter
  among A, B, C, D; \<open>valid_row\<close> states it. Nothing in the notebooks enforces it,
  so the fields are plain texts.
\<close>

record QuestionRow =
  question :: string
  choices :: "string list"
  correct_letter :: string

definition letters :: "string list" where
  "letters = [''A'', ''B'', ''C'', ''D'']"

definition valid_row :: "QuestionRow \<Rightarrow> bool" where
  "valid_row r \<longleftrightarrow> length (choices r) = 4 \<and> correct_letter r \<in> set letters"

section \<open>Prompt formatter\<close>

text \<open>
  The notebooks import \<^verbatim>\<open>format_example\<close> and \<^verbatim>\<open>gen_prompt\<close> from a module
  \<^verbatim>\<open>reuse\<close> whose file is not among the sources; only the calls and the prompts
  they printed are. The definitions of this section are therefore written from the
  specification, and the recorded prompts fix what it leaves open: the wording of the
  header, the blank and the empty line around an appended letter.

  The recorded 0-shot prompt is the header line, an instruction sentence and the
  unanswered target. The specification gives the rendering of a row literally, without
  that sentence, so the sentence counts as the end of the instructional header. The
  recorded 2-shot prompt repeats the sentence before the second example and before the
  target (\<open>recorded_2shot\<close> below). The specification has the examples follow one
  another with nothing between them, and the sources do not show which function writes
  the repetitions; \<open>gen_prompt\<close> follows the specification and does not write them.
\<close>

text \<open>
  Modelled from the spec: the parts of a rendered row (module \<^verbatim>\<open>reuse\<close>, absent).
  The question text, then each choice on a line of its own after its letter and a full
  stop, then the marker on a last line; the answer is a blank, the correct letter and
  an empty line.
\<close>

definition marker :: string where
  "marker = ''Answer:''"

definition render_choice :: "string \<times> string \<Rightarrow> string" where
  "render_choice = (\<lambda>(l, c). ''\<newline>'' @ l @ ''. '' @ c)"

definition stem :: "QuestionRow \<Rightarrow> string" where
  "stem r = question r @ concat (map render_choice (zip letters (choices r))) @ ''\<newline> - ''"

definition render_question :: "QuestionRow \<Rightarrow> string" where
  "render_question r = stem r @ marker"

definition render_answer :: "QuestionRow \<Rightarrow> string" where
  "render_answer r = '' '' @ correct_letter r @ ''\<newline>\<newline>''"

text \<open>
  Modelled from the spec: the body of \<^verbatim>\<open>format_example(rows, index, include_answer)\<close>
  (module \<^verbatim>\<open>reuse\<close>, absent). The question text, each choice letter-prefixed on its
  own line, the trailing marker, and the correct letter after the marker only when
  \<open>include_answer\<close> holds. A row index beyond the table is an \<open>OutOfRangeError\<close>. Every
  call in the notebooks passes an index that is not negative, so the index is a natural
  number.
\<close>

definition format_example :: "QuestionRow list \<Rightarrow> nat \<Rightarrow> bool \<Rightarrow> error + string" where
  "format_example rows index include_answer =
     (if index < length rows
      then Inr (render_question (rows ! index) @
                (if include_answer then render_answer (rows ! index) else []))
      else Inl OutOfRangeError)"

text \<open>
  Modelled from the spec: the fixed instructional header of \<^verbatim>\<open>gen_prompt\<close> (module
  \<^verbatim>\<open>reuse\<close>, absent), in the words of the recorded prompts. Its first line names
  the topic, after two blanks and before a full stop; an empty line and the instruction
  follow.
\<close>

definition instruction_words :: string where
  "instruction_words =
     ''Follow the answer instructions strictly, and answer only with the letter '' @
     ''corresponding to the correct answer''"

definition instruction :: string where
  "instruction = instruction_words @ '': ''"

definition header_words :: string where
  "header_words =
     ''The following are multiple choice questions (with answers) about'' @ ''  ''"

definition header_line :: "string \<Rightarrow> string" where
  "header_line topic = header_words @ topic @ ''.\<newline>\<newline>''"

definition header :: "string \<Rightarrow> string" where
  "header topic = header_line topic @ instruction"

text \<open>
  Modelled from the spec: the body of \<^verbatim>\<open>gen_prompt(rows, topic_name, shot_count)\<close>
  (module \<^verbatim>\<open>reuse\<close>, absent). The instructional header naming the topic, then the
  rows \<open>0, ..., shot_count - 1\<close> of the example table, each rendered with its answer,
  concatenated in order. \<open>gen_loop\<close> is the loop over the row indices; it stops at the
  first rendering that fails. \<open>answered\<close> is what one example adds to the prompt.
\<close>

fun gen_loop :: "QuestionRow list \<Rightarrow> nat list \<Rightarrow> string \<Rightarrow> error + string" where
  "gen_loop rows [] prompt = Inr prompt"
| "gen_loop rows (i # is) prompt =
     (case format_example rows i True of
        Inl e \<Rightarrow> Inl e
      | Inr ex \<Rightarrow> gen_loop rows is (prompt @ ex))"

definition gen_prompt :: "QuestionRow list \<Rightarrow> string \<Rightarrow> nat \<Rightarrow> error + string" where
  "gen_prompt rows topic k = gen_loop rows [0..<k] (header topic)"

definition answered :: "QuestionRow \<Rightarrow> string" where
  "answered r = render_question r @ render_answer r"

section \<open>Searching a prompt\<close>

text \<open>
  \<open>count_occ p s\<close> counts the positions of \<open>s\<close> where the non-empty text \<open>p\<close> starts;
  \<open>after_last p s\<close> is what follows the last occurrence of \<open>p\<close> in \<open>s\<close>, if there is
  one. Both are case sensitive, as a search for the literal marker is.
\<close>

fun count_occ :: "string \<Rightarrow> string \<Rightarrow> nat" where
  "count_occ p [] = 0"
| "count_occ p (c # cs) = (if prefix p (c # cs) then 1 else 0) + count_occ p cs"

fun after_last :: "string \<Rightarrow> string \<Rightarrow> string option" where
  "after_last p [] = (if p = [] then Some [] else None)"
| "after_last p (c # cs) =
     (case after_last p cs of
        Some rest \<Rightarrow> Some rest
      | None \<Rightarrow> if prefix p (c # cs) then Some (drop (length p) (c # cs)) else None)"

definition text_after_marker :: "error + string \<Rightarrow> string option" where
  "text_after_marker res = (case res of Inl e \<Rightarrow> None | Inr out \<Rightarrow> after_last marker out)"





section \<open>Dataset reader\<close>





section \<open>Scoring\<close>

text \<open>
  \<^verbatim>\<open>cont = sum(1 for x, y in zip(answers, real_answers) if x == y)\<close>
  \<^verbatim>\<open>print(f"Grade: {cont} in 20")\<close>

  \<open>zip\<close> stops at the shorter list. The total in the printed line is the literal 20.
\<close>

definition cont :: "string list \<Rightarrow> string list \<Rightarrow> nat" where
  "cont answers real_answers =
     sum_list (map (\<lambda>(x, y). 1) (filter (\<lambda>(x, y). x = y) (zip answers real_answers)))"

fun str_nat :: "nat \<Rightarrow> string" where
  "str_nat n =
     (if n < 10 then [char_of (48 + n)]
      else str_nat (n div 10) @ [char_of (48 + n mod 10)])"

declare str_nat.simps [simp del]

definition grade_line :: "string list \<Rightarrow> string list \<Rightarrow> string" where
  "grade_line answers real_answers =
     ''Grade: '' @ str_nat (cont answers real_answers) @ '' in 20''"

text \<open>
  \<^verbatim>\<open>real_answers = df.loc[35:55, last_col].tolist()\<close>

  A table read without an index column is labelled by position, and a slice by labels
  includes its upper end: \<open>loc_slice a b\<close> keeps the rows \<open>a, ..., b\<close> that exist.
  The last column of a row is its correct letter.
\<close>

definition loc_slice :: "nat \<Rightarrow> nat \<Rightarrow> 'a list \<Rightarrow> 'a list" where
  "loc_slice a b xs = take (Suc b - a) (drop a xs)"

definition real_answers_of :: "QuestionRow list \<Rightarrow> string list" where
  "real_answers_of df = map correct_letter (loc_slice 35 55 df)"

section \<open>Scoring loop\<close>

text \<open>
  The body of the loop builds the prompt of one target question:
  \<^verbatim>\<open>
  prompt_end = format_example(df_test, q, include_answer=False)
  train_prompt = gen_prompt(df_val, 'anatomy', 2)
  prompt = train_prompt + prompt_end
  \<close>
  The 0-shot notebook passes the test table for both tables and 0 for the shot count.
\<close>

definition build_prompt :: "QuestionRow list \<Rightarrow> QuestionRow list \<Rightarrow> nat \<Rightarrow> nat \<Rightarrow> error + string" where
  "build_prompt df_val df_test k q =
     (case format_example df_test q False of
        Inl e \<Rightarrow> Inl e
      | Inr prompt_end \<Rightarrow>
          (case gen_prompt df_val ''anatomy'' k of
             Inl e \<Rightarrow> Inl e
           | Inr train_prompt \<Rightarrow> Inr (train_prompt @ prompt_end)))"

text \<open>
  The chat model is a collaborator outside the repository: \<open>llm n prompt\<close> is what its
  invocation number \<open>n\<close> (counting from 0) answers to \<open>prompt\<close>, the content of the
  response or a failure that its own retries did not cure.

  The state of a run: the list \<open>answers\<close>, the prompts submitted so far, and the error
  that ended the run, if one did.
  \<^verbatim>\<open>
  answers = []
  for q in tqdm(range(35, 55)):
      ...
      response = llm.invoke(messages)
      answers.append(response.content)
      time.sleep(1)
  \<close>
  An exception leaves the loop at once; what was appended before stays in \<open>answers\<close>.
  The pause between calls has no counterpart in the model.
\<close>

type_synonym model = "nat \<Rightarrow> string \<Rightarrow> error + string"

record run =
  answers :: "string list"
  calls :: "string list"
  halted :: "error option"
  printed :: "string option"

fun scoring_loop :: "model \<Rightarrow> QuestionRow list \<Rightarrow> QuestionRow list \<Rightarrow> nat \<Rightarrow> nat list \<Rightarrow> run \<Rightarrow> run" where
  "scoring_loop llm df_val df_test k [] s = s"
| "scoring_loop llm df_val df_test k (q # qs) s =
     (case build_prompt df_val df_test k q of
        Inl e \<Rightarrow> s\<lparr>halted := Some e\<rparr>
      | Inr prompt \<Rightarrow>
          (case llm (length (calls s)) prompt of
             Inl e \<Rightarrow> s\<lparr>calls := calls s @ [prompt], halted := Some e\<rparr>
           | Inr content \<Rightarrow>
               scoring_loop llm df_val df_test k qs
                 (s\<lparr>answers := answers s @ [content], calls := calls s @ [prompt]\<rparr>)))"

definition targets :: "nat list" where
  "targets = [35..<55]"

section \<open>The notebook as a pipeline\<close>

text \<open>
  \<^verbatim>\<open>
  load_dotenv('../../.env')
  os.environ["OPENAI_API_KEY"] = os.getenv("OPENAI_API_KEY")
  \<close>
  \<open>load_dotenv\<close> adds the variables of the file that the process environment does not
  have yet. \<open>os.getenv\<close> gives \<open>None\<close> for an absent variable, and assigning \<open>None\<close> into
  \<open>os.environ\<close> raises.
\<close>

type_synonym env = "string \<rightharpoonup> string"

definition load_dotenv :: "env \<Rightarrow> env \<Rightarrow> env" where
  "load_dotenv dotenv environ = dotenv ++ environ"

definition setup_cell :: "env \<Rightarrow> env \<Rightarrow> error + env" where
  "setup_cell dotenv environ =
     (let environ1 = load_dotenv dotenv environ in
      case environ1 ''OPENAI_API_KEY'' of
        None \<Rightarrow> Inl ConfigurationError
      | Some v \<Rightarrow> Inr (environ1(''OPENAI_API_KEY'' \<mapsto> v)))"

text \<open>
  The cells in order: the setup, the reading of the tables (their outcomes are given:
  the example table \<open>read_val\<close> and the test table \<open>read_test\<close>, one and the same in the
  0-shot notebook), the trial prompt for the row \<open>probe\<close> and its submission, the
  scoring loop, the ground truth and the grade. The first error ends the run.
\<close>

definition fresh :: run where
  "fresh = \<lparr>answers = [], calls = [], halted = None, printed = None\<rparr>"

definition notebook ::
  "env \<Rightarrow> env \<Rightarrow> error + QuestionRow list \<Rightarrow> error + QuestionRow list \<Rightarrow> nat \<Rightarrow> nat \<Rightarrow> model \<Rightarrow> run" where
  "notebook dotenv environ read_val read_test k probe llm =
     (case setup_cell dotenv environ of
        Inl e \<Rightarrow> fresh\<lparr>halted := Some e\<rparr>
      | Inr environ1 \<Rightarrow>
     (case read_val of
        Inl e \<Rightarrow> fresh\<lparr>halted := Some e\<rparr>
      | Inr df_val \<Rightarrow>
     (case read_test of
        Inl e \<Rightarrow> fresh\<lparr>halted := Some e\<rparr>
      | Inr df_test \<Rightarrow>
     (case build_prompt df_val df_test k probe of
        Inl e \<Rightarrow> fresh\<lparr>halted := Some e\<rparr>
      | Inr prompt \<Rightarrow>
     (case llm 0 prompt of
        Inl e \<Rightarrow> fresh\<lparr>calls := [prompt], halted := Some e\<rparr>
      | Inr content \<Rightarrow>
          (let s = scoring_loop llm df_val df_test k targets (fresh\<lparr>calls := [prompt]\<rparr>) in
           if halted s = None
           then s\<lparr>printed := Some (grade_line (answers s) (real_answers_of df_test))\<rparr>
           else s))))))"

section \<open>Sample data\<close>

definition row_Q1 :: QuestionRow where
  "row_Q1 = \<lparr>question = ''Q1'', choices = [''A1'', ''A2'', ''A3'', ''A4''],
             correct_letter = ''A''\<rparr>"


text \<open>
  The rows behind the two prompts that the notebooks display, as the notebooks show
  them (rows 0 and 4 of the test table, rows 0 and 1 of the example table), and the two
  prompts as recorded.
\<close>

definition anatomy_test_0 :: QuestionRow where
  "anatomy_test_0 = \<lparr>
     question = ''A lesion causing compression of the facial nerve at the stylomastoid '' @
       ''foramen will cause ipsilateral'',
     choices = [''paralysis of the facial muscles.'',
       ''paralysis of the facial muscles and loss of taste.'',
       ''paralysis of the facial muscles, loss of taste and lacrimation.'',
       ''paralysis of the facial muscles, loss of taste, lacrimation and decreased salivation.''],
     correct_letter = ''A''\<rparr>"

definition anatomy_test_4 :: QuestionRow where
  "anatomy_test_4 = \<lparr>
     question = ''Which of the following describes the cluster of blood capillaries found '' @
       ''in each nephron in the kidney?'',
     choices = [''Afferent arteriole'', ''Glomerulus'', ''Loop of Henle'', ''Renal pelvis''],
     correct_letter = ''B''\<rparr>"

definition anatomy_val_0 :: QuestionRow where
  "anatomy_val_0 = \<lparr>
     question = ''Which of the following terms describes the body's ability to maintain '' @
       ''its normal state?'',
     choices = [''Anabolism'', ''Catabolism'', ''Tolerance'', ''Homeostasis''],
     correct_letter = ''D''\<rparr>"

definition anatomy_val_1 :: QuestionRow where
  "anatomy_val_1 = \<lparr>
     question = ''Which of the following structures travel through the substance of the '' @
       ''parotid gland?'',
     choices = [''The maxillary artery'',
       ''The maxillary artery and retromandibular vein'',
       ''The maxillary artery, retromandibular vein and facial artery'',
       ''The maxillary artery, retromandibular vein, facial artery and buccal branch of '' @
       ''the mandibular nerve''],
     correct_letter = ''B''\<rparr>"

definition recorded_prompt_0shot :: string where
  "recorded_prompt_0shot =
     ''The following are multiple choice questions (with answers) about '' @
     '' anatomy.\<newline>'' @
     ''\<newline>'' @
     ''Follow the answer instructions strictly, and answer only with the letter'' @
     '' corresponding to the correct answer: A lesion causing compression of the'' @
     '' facial nerve at the stylomastoid foramen will cause ipsilateral\<newline>'' @
     ''A. paralysis of the facial muscles.\<newline>'' @
     ''B. paralysis of the facial muscles and loss of taste.\<newline>'' @
     ''C. paralysis of the facial muscles, loss of taste and lacrimation.\<newline>'' @
     ''D. paralysis of the facial muscles, loss of taste, lacrimation and decreased'' @
     '' salivation.\<newline>'' @
     '' - Answer:''"

definition recorded_prompt_2shot :: string where
  "recorded_prompt_2shot =
     ''The following are multiple choice questions (with answers) about '' @
     '' anatomy.\<newline>'' @
     ''\<newline>'' @
     ''Follow the answer instructions strictly, and answer only with the letter'' @
     '' corresponding to the correct answer: Which of the following terms describes'' @
     '' the body's ability to maintain its normal state?\<newline>'' @
     ''A. Anabolism\<newline>'' @
     ''B. Catabolism\<newline>'' @
     ''C. Tolerance\<newline>'' @
     ''D. Homeostasis\<newline>'' @
     '' - Answer: D\<newline>'' @
     ''\<newline>'' @
     ''Follow the answer instructions strictly, and answer only with the letter'' @
     '' corresponding to the correct answer: Which of the following structures travel'' @
     '' through the substance of the parotid gland?\<newline>'' @
     ''A. The maxillary artery\<newline>'' @
     ''B. The maxillary artery and retromandibular vein\<newline>'' @
     ''C. The maxillary artery, retromandibular vein and facial artery\<newline>'' @
     ''D. The maxillary artery, retromandibular vein, facial artery and buccal branch'' @
     '' of the mandibular nerve\<newline>'' @
     '' - Answer: B\<newline>'' @
     ''\<newline>'' @
     ''Follow the answer instructions strictly, and answer only with the letter'' @
     '' corresponding to the correct answer: Which of the following describes the'' @
     '' cluster of blood capillaries found in each nephron in the kidney?\<newline>'' @
     ''A. Afferent arteriole\<newline>'' @
     ''B. Glomerulus\<newline>'' @
     ''C. Loop of Henle\<newline>'' @
     ''D. Renal pelvis\<newline>'' @
     '' - Answer:''"

text \<open>
  Two chat models for the examples: \<open>flaky\<close> answers twice and then fails, \<open>steady\<close>
  always answers; and a table of 56 rows, the least that has a row 55.
\<close>

definition flaky :: model where
  "flaky n prompt = (if n < 2 then Inr ''A'' else Inl ExternalCallError)"

definition steady :: model where
  "steady n prompt = Inr ''A''"

definition table56 :: "QuestionRow list" where
  "table56 = replicate 56 row_Q1"


text \<open>An \<^verbatim>\<open>.env\<close> file that provides the key.\<close>

definition dotenv_with_key :: env where
  "dotenv_with_key = [''OPENAI_API_KEY'' \<mapsto> ''sk-example'']"

section \<open>Properties of the prompt formatter\<close>

lemma format_example_in_range:
  "index < length rows \<Longrightarrow>
   format_example rows index b =
     Inr (render_question (rows ! index) @ (if b then render_answer (rows ! index) else []))"
  by (simp add: format_example_def)

lemma format_example_out_of_range:
  "\<not> index < length rows \<Longrightarrow> format_example rows index b = Inl OutOfRangeError"
  by (simp add: format_example_def)


lemma gen_loop_out_of_range:
  "i \<in> set is \<Longrightarrow> \<not> i < length rows \<Longrightarrow> gen_loop rows is prompt = Inl OutOfRangeError"
proof (induction "is" arbitrary: prompt)
  case Nil
  then show ?case by simp
next
  case (Cons j js)
  show ?case
  proof (cases "j < length rows")
    case True
    with Cons have "i \<in> set js" by auto
    with Cons True show ?thesis by (simp add: format_example_in_range)
  next
    case False
    then show ?thesis by (simp add: format_example_out_of_range)
  qed
qed



section \<open>The recorded prompts\<close>

text \<open>
  The model builds the 0-shot prompt that the notebook displays exactly as it is
  recorded there. The recorded 2-shot prompt is made of the same parts in the same
  order, with the instruction once more before the second example and before the
  target.
\<close>

lemma recorded_0shot:
  assumes "0 < length df" and "df ! 0 = anatomy_test_0"
  shows "build_prompt df df 0 0 = Inr recorded_prompt_0shot"
  using assms
  by (simp add: build_prompt_def gen_prompt_def format_example_in_range recorded_prompt_0shot_def
      header_def header_line_def header_words_def instruction_def instruction_words_def
      render_question_def stem_def render_choice_def letters_def marker_def anatomy_test_0_def)

lemma recorded_2shot:
  "recorded_prompt_2shot =
     header ''anatomy'' @ answered anatomy_val_0 @
     instruction @ answered anatomy_val_1 @
     instruction @ render_question anatomy_test_4"
  by (simp add: recorded_prompt_2shot_def header_def header_line_def header_words_def
      instruction_def instruction_words_def answered_def render_question_def render_answer_def
      stem_def render_choice_def letters_def marker_def anatomy_test_4_def anatomy_val_0_def
      anatomy_val_1_def)

section \<open>The text after the marker\<close>

lemma after_last_short: "length s < length p \<Longrightarrow> after_last p s = None"
  by (induction s) (auto dest: prefix_length_le)

lemma after_last_self: "p \<noteq> [] \<Longrightarrow> after_last p p = Some []"
  by (cases p) (simp_all add: after_last_short)

lemma after_last_append: "after_last p u = Some t \<Longrightarrow> after_last p (s @ u) = Some t"
  by (induction s) simp_all

lemma after_marker_letter:
  "l \<in> set letters \<Longrightarrow>
   after_last marker (marker @ '' '' @ l @ ''\<newline>\<newline>'') = Some ('' '' @ l @ ''\<newline>\<newline>'')"
  by (auto simp add: letters_def marker_def)

section \<open>Counting across a delimiter\<close>



lemma count_occ_short: "length s < length p \<Longrightarrow> count_occ p s = 0"
  by (induction s) (auto dest: prefix_length_le)

lemma count_occ_self: "p \<noteq> [] \<Longrightarrow> count_occ p p = 1"
  by (cases p) (simp_all add: count_occ_short)

section \<open>Occurrences of the marker\<close>













section \<open>Occurrences of the topic\<close>







section \<open>Claims about the prompt formatter\<close>

text \<open>
  C1. For the literal row Q1, A1, A2, A3, A4, A at index 0, rendering without the answer
  gives exactly the question, the four letter-prefixed choices each on its own line and
  the marker, and nothing else.
\<close>

theorem format_example_literal:
  "format_example [row_Q1] 0 False =
     Inr ''Q1\<newline>A. A1\<newline>B. A2\<newline>C. A3\<newline>D. A4\<newline> - Answer:''"
  by (simp add: format_example_def render_question_def stem_def render_choice_def letters_def
      marker_def row_Q1_def)

text \<open>
  C4. For a row of the data model at a valid index: rendered without the answer, the
  text after the (last) marker is empty, so the correct letter does not follow the
  marker; rendered with the answer, the text after the marker is a blank, the correct
  letter and an empty line, so the letter does follow it.
\<close>

theorem answer_after_marker:
  "index < length rows \<Longrightarrow> valid_row (rows ! index) \<Longrightarrow>
   text_after_marker (format_example rows index False) = Some [] \<and>
   \<not> sublist (correct_letter (rows ! index)) [] \<and>
   text_after_marker (format_example rows index True) = Some (render_answer (rows ! index)) \<and>
   sublist (correct_letter (rows ! index)) (render_answer (rows ! index))"
proof -
  assume idx: "index < length rows" and ok: "valid_row (rows ! index)"
  let ?r = "rows ! index"
  from ok have l: "correct_letter ?r \<in> set letters" by (simp add: valid_row_def)
  have "after_last marker (stem ?r @ marker) = Some []"
    by (rule after_last_append) (simp add: after_last_self marker_def)
  then have 1: "text_after_marker (format_example rows index False) = Some []"
    using idx by (simp add: text_after_marker_def format_example_in_range render_question_def)
  from l have 2: "correct_letter ?r \<noteq> []" by (auto simp add: letters_def)
  have "after_last marker (stem ?r @ (marker @ '' '' @ correct_letter ?r @ ''\<newline>\<newline>'')) =
      Some ('' '' @ correct_letter ?r @ ''\<newline>\<newline>'')"
    using l by (intro after_last_append after_marker_letter)
  then have 3: "text_after_marker (format_example rows index True) = Some (render_answer ?r)"
    using idx
    by (simp add: text_after_marker_def format_example_in_range render_question_def
        render_answer_def)
  have 4: "sublist (correct_letter ?r) (render_answer ?r)"
    unfolding render_answer_def by (intro sublist_appendI sublist_order.order_refl)
  from 1 2 3 4 show ?thesis by simp
qed

theorem answer_after_marker_witness:
  "text_after_marker (format_example [row_Q1] 0 False) = Some [] \<and>
   text_after_marker (format_example [row_Q1] 0 True) = Some '' A\<newline>\<newline>'' \<and>
   sublist ''A'' '' A\<newline>\<newline>''"
proof -
  have "valid_row ([row_Q1] ! 0)" by (simp add: valid_row_def row_Q1_def letters_def)
  from answer_after_marker [of 0 "[row_Q1]", OF _ this] show ?thesis
    by (simp add: row_Q1_def render_answer_def)
qed




text \<open>
  C6. With a shot count of 0 the output of \<open>gen_prompt\<close> is the instructional header
  alone, and the full prompt of a target question is that header followed by the
  unanswered rendering of the target, with nothing before, between or after them.
\<close>

theorem zero_shot_prompt:
  "q < length df_test \<Longrightarrow>
   gen_prompt df_val topic 0 = Inr (header topic) \<and>
   format_example df_test q False = Inr (render_question (df_test ! q)) \<and>
   build_prompt df_val df_test 0 q = Inr (header ''anatomy'' @ render_question (df_test ! q))"
  by (simp add: gen_prompt_def build_prompt_def format_example_in_range)

theorem zero_shot_prompt_witness:
  "gen_prompt [] ''anatomy'' 0 = Inr (header ''anatomy'') \<and>
   format_example [row_Q1] 0 False = Inr (render_question row_Q1) \<and>
   build_prompt [] [row_Q1] 0 0 = Inr (header ''anatomy'' @ render_question row_Q1)"
  using zero_shot_prompt [of 0 "[row_Q1]" "[]" "''anatomy''"] by simp

text \<open>
  C7. A shot count greater than the number of rows of the example table makes
  \<open>gen_prompt\<close> fail with an \<open>OutOfRangeError\<close>; no prompt is returned.
\<close>

theorem gen_prompt_too_many_shots:
  "length rows < k \<Longrightarrow> gen_prompt rows topic k = Inl OutOfRangeError"
  unfolding gen_prompt_def by (rule gen_loop_out_of_range [of "length rows"]) simp_all

theorem gen_prompt_too_many_shots_witness:
  "gen_prompt [row_Q1] ''anatomy'' 2 = Inl OutOfRangeError"
  using gen_prompt_too_many_shots [of "[row_Q1]" 2 "''anatomy''"] by simp

section \<open>Properties of the dataset reader\<close>








section \<open>Properties of the scoring\<close>

lemma sum_ones: "sum_list (map (\<lambda>(x, y). 1) xs) = length xs"
  by (induction xs) auto

lemma cont_length: "cont preds real_answers =
    length (filter (\<lambda>(x, y). x = y) (zip preds real_answers))"
  by (simp only: cont_def sum_ones)

lemma cont_card:
  "cont preds real_answers =
     card {i. i < min (length preds) (length real_answers) \<and> preds ! i = real_answers ! i}"
proof -
  have "{i. i < length (zip preds real_answers) \<and> (\<lambda>(x, y). x = y) (zip preds real_answers ! i)} =
      {i. i < min (length preds) (length real_answers) \<and> preds ! i = real_answers ! i}"
    by auto
  then show ?thesis
    by (simp only: cont_length length_filter_conv_card)
qed

text \<open>
  C3, as stated, fails: no quotient is computed. For two right answers out of two the
  cell counts 2 and prints it against the fixed total 20, which is not the ratio 1.
\<close>

theorem cont_ratio_counterexample:
  "cont [''C'', ''D''] [''C'', ''D''] = 2 \<and>
   grade_line [''C'', ''D''] [''C'', ''D''] = ''Grade: 2 in 20'' \<and>
   (of_nat (cont [''C'', ''D''] [''C'', ''D'']) :: rat) / 20 \<noteq> 1"
proof -
  have 1: "cont [''C'', ''D''] [''C'', ''D''] = 2" by (simp add: cont_def)
  have 2: "grade_line [''C'', ''D''] [''C'', ''D''] = ''Grade: 2 in 20''" by code_simp
  from 1 2 show ?thesis by simp
qed

text \<open>
  C3, amended. \<open>cont\<close> is the number of positions, among those that both lists have,
  where the predicted letter equals the true one. It is printed as it is, against the
  literal total 20. For the predictions C, D and the truth C, D it is 2; for the
  predictions C, X and the truth C, D it is 1.
\<close>

theorem cont_counts_matches:
  "cont preds real_answers =
     card {i. i < min (length preds) (length real_answers) \<and> preds ! i = real_answers ! i} \<and>
   grade_line preds real_answers =
     ''Grade: '' @ str_nat (cont preds real_answers) @ '' in 20'' \<and>
   cont [''C'', ''D''] [''C'', ''D''] = 2 \<and>
   cont [''C'', ''X''] [''C'', ''D''] = 1"
proof -
  have "cont [''C'', ''D''] [''C'', ''D''] = 2" and "cont [''C'', ''X''] [''C'', ''D''] = 1"
    by (simp_all add: cont_def)
  with cont_card [of preds real_answers] show ?thesis
    by (simp add: grade_line_def)
qed

section \<open>Properties of the scoring loop\<close>

lemma scoring_loop_step_ok:
  "build_prompt df_val df_test k q = Inr p \<Longrightarrow> llm (length (calls s)) p = Inr a \<Longrightarrow>
   scoring_loop llm df_val df_test k (q # qs) s =
     scoring_loop llm df_val df_test k qs (s\<lparr>answers := answers s @ [a], calls := calls s @ [p]\<rparr>)"
  by simp

lemma map_upt_Suc_shift: "map f [0..<Suc n] = f 0 # map (\<lambda>j. f (Suc j)) [0..<n]"
  by (simp add: map_upt_Suc del: upt_Suc)

lemma scoring_loop_failure:
  assumes "i < length qs"
    and "\<forall>j \<le> i. build_prompt df_val df_test k (qs ! j) = Inr (ps j)"
    and "\<forall>j < i. llm (length (calls s) + j) (ps j) = Inr (as j)"
    and "llm (length (calls s) + i) (ps i) = Inl e"
  shows "scoring_loop llm df_val df_test k qs s =
     s\<lparr>answers := answers s @ map as [0..<i], calls := calls s @ map ps [0..<Suc i],
        halted := Some e\<rparr>"
  using assms
proof (induction qs arbitrary: i ps as s)
  case Nil
  then show ?case by simp
next
  case (Cons q qs)
  from Cons.prems(2) have p0: "build_prompt df_val df_test k q = Inr (ps 0)"
    by (metis le0 nth_Cons_0)
  show ?case
  proof (cases i)
    case 0
    with Cons.prems(4) have "llm (length (calls s)) (ps 0) = Inl e" by simp
    with p0 0 show ?thesis by simp
  next
    case (Suc i')
    let ?s = "s\<lparr>answers := answers s @ [as 0], calls := calls s @ [ps 0]\<rparr>"
    from Cons.prems(3) Suc have a0: "llm (length (calls s)) (ps 0) = Inr (as 0)"
      by (metis add.right_neutral zero_less_Suc)
    have 1: "i' < length qs" using Cons.prems(1) Suc by simp
    have 2: "\<forall>j \<le> i'. build_prompt df_val df_test k (qs ! j) = Inr (ps (Suc j))"
      using Cons.prems(2) Suc by (metis Suc_le_mono nth_Cons_Suc)
    have 3: "\<forall>j < i'. llm (length (calls ?s) + j) (ps (Suc j)) = Inr (as (Suc j))"
    proof (intro allI impI)
      fix j
      assume "j < i'"
      with Suc have "Suc j < i" by simp
      with Cons.prems(3) have "llm (length (calls s) + Suc j) (ps (Suc j)) = Inr (as (Suc j))"
        by blast
      then show "llm (length (calls ?s) + j) (ps (Suc j)) = Inr (as (Suc j))" by simp
    qed
    have 4: "llm (length (calls ?s) + i') (ps (Suc i')) = Inl e"
      using Cons.prems(4) Suc by simp
    have "scoring_loop llm df_val df_test k (q # qs) s = scoring_loop llm df_val df_test k qs ?s"
      using p0 a0 by (rule scoring_loop_step_ok)
    also have "\<dots> = ?s\<lparr>answers := answers ?s @ map (\<lambda>j. as (Suc j)) [0..<i'],
        calls := calls ?s @ map (\<lambda>j. ps (Suc j)) [0..<Suc i'], halted := Some e\<rparr>"
      using 1 2 3 4 by (rule Cons.IH)
    also have "\<dots> = s\<lparr>answers := answers s @ map as [0..<i], calls := calls s @ map ps [0..<Suc i],
        halted := Some e\<rparr>"
      unfolding Suc map_upt_Suc_shift [of as] map_upt_Suc_shift [of ps] by simp
    finally show ?thesis .
  qed
qed

text \<open>
  C8. When the prompts of the first \<open>i + 1\<close> target questions can be built, the model
  answers the first \<open>i\<close> of them and fails on the next, the loop stops there: \<open>answers\<close>
  holds what it held before the loop followed by exactly the \<open>i\<close> recorded answers, the
  run is halted with the error of the failed call, and no further call is made.
\<close>

theorem loop_halts_at_failure:
  assumes "i < length qs"
    and "\<forall>j \<le> i. build_prompt df_val df_test k (qs ! j) = Inr (ps j)"
    and "\<forall>j < i. llm (length (calls s) + j) (ps j) = Inr (as j)"
    and "llm (length (calls s) + i) (ps i) = Inl e"
  shows "answers (scoring_loop llm df_val df_test k qs s) = answers s @ map as [0..<i] \<and>
    length (answers (scoring_loop llm df_val df_test k qs s)) = length (answers s) + i \<and>
    halted (scoring_loop llm df_val df_test k qs s) = Some e \<and>
    calls (scoring_loop llm df_val df_test k qs s) = calls s @ map ps [0..<Suc i]"
  using scoring_loop_failure [OF assms] by (simp del: upt_Suc)

theorem loop_halts_at_failure_witness:
  "answers (scoring_loop flaky [] [row_Q1, row_Q1, row_Q1] 0 [0, 1, 2] fresh) = [''A'', ''A''] \<and>
   halted (scoring_loop flaky [] [row_Q1, row_Q1, row_Q1] 0 [0, 1, 2] fresh) =
     Some ExternalCallError"
proof -
  let ?p = "header ''anatomy'' @ render_question row_Q1"
  have 1: "(2::nat) < length [0::nat, 1, 2]" by simp
  have 2: "\<forall>j \<le> 2. build_prompt [] [row_Q1, row_Q1, row_Q1] 0 ([0, 1, 2] ! j) = Inr ((\<lambda>_. ?p) j)"
    by (simp add: build_prompt_def gen_prompt_def format_example_def nth_Cons split: nat.splits)
  have 3: "\<forall>j < 2. flaky (length (calls fresh) + j) ((\<lambda>_. ?p) j) = Inr ((\<lambda>_. ''A'') j)"
    by (simp add: flaky_def fresh_def)
  have 4: "flaky (length (calls fresh) + 2) ((\<lambda>_. ?p) 2) = Inl ExternalCallError"
    by (simp add: flaky_def fresh_def)
  from loop_halts_at_failure [where ps = "\<lambda>_. ?p" and as = "\<lambda>_. ''A''" and llm = flaky
      and s = fresh and i = 2 and qs = "[0, 1, 2]" and df_val = "[]"
      and df_test = "[row_Q1, row_Q1, row_Q1]" and k = 0 and e = ExternalCallError, OF 1 2 3 4]
  show ?thesis
    by (simp add: fresh_def upt_rec numeral_2_eq_2)
qed

lemma scoring_loop_complete:
  "halted (scoring_loop llm df_val df_test k qs s) = None \<Longrightarrow>
   length (answers (scoring_loop llm df_val df_test k qs s)) = length (answers s) + length qs"
proof (induction qs arbitrary: s)
  case Nil
  then show ?case by simp
next
  case (Cons q qs)
  then show ?case
    by (auto split: sum.splits)
qed

lemma zip_take_left: "zip xs (take (length xs) ys) = zip xs ys"
proof (induction xs arbitrary: ys)
  case Nil
  show ?case by simp
next
  case (Cons x xs)
  then show ?case by (cases ys) simp_all
qed

lemma cont_take: "cont preds (take (length preds) real_answers) = cont preds real_answers"
  by (simp add: cont_def zip_take_left)

lemma cont_ignores_rest:
  assumes "length preds \<le> length ys"
  shows "cont preds (ys @ zs) = cont preds ys"
proof -
  have "cont preds (ys @ zs) = cont preds (take (length preds) (ys @ zs))"
    by (simp only: cont_take)
  also have "\<dots> = cont preds (take (length preds) ys)"
    using assms by simp
  also have "\<dots> = cont preds ys"
    by (simp only: cont_take)
  finally show ?thesis .
qed

lemma length_real_answers_of: "55 < length df \<Longrightarrow> length (real_answers_of df) = 21"
  by (simp add: real_answers_of_def loc_slice_def)

lemma real_answers_of_nth:
  assumes "55 < length df" and "i < 21"
  shows "real_answers_of df ! i = correct_letter (df ! (35 + i))"
  using assms by (simp add: real_answers_of_def loc_slice_def)

lemma cont_positions:
  assumes "55 < length df" and "length preds = 20"
  shows "cont preds (real_answers_of df) =
    card {i. i < 20 \<and> preds ! i = correct_letter (df ! (35 + i))}"
proof -
  have "{i. i < min (length preds) (length (real_answers_of df)) \<and>
        preds ! i = real_answers_of df ! i} =
      {i. i < 20 \<and> preds ! i = correct_letter (df ! (35 + i))}"
    using assms by (auto simp add: length_real_answers_of real_answers_of_nth)
  then show ?thesis
    by (simp only: cont_card)
qed

text \<open>
  C10. When the table has a row 55 and the loop over the targets 35 to 54 completes from
  an empty \<open>answers\<close>, there are 20 predictions and 21 ground-truth letters, the letters
  of the rows 35 to 55. The count is the number of positions \<open>i\<close> below 20 where
  prediction \<open>i\<close> equals the letter of row \<open>35 + i\<close>: each prediction is paired with the
  letter at its own position, and the letter of row 55 has no partner. So the count is
  the count against the first 20 letters, and neither it nor the printed grade changes
  with the 21st letter.
\<close>

theorem extra_truth_ignored:
  assumes "55 < length df_test"
    and "answers s0 = []"
    and "halted (scoring_loop llm df_val df_test k targets s0) = None"
  shows "length (answers (scoring_loop llm df_val df_test k targets s0)) = 20 \<and>
    length (real_answers_of df_test) = 21 \<and>
    (\<forall>i < 21. real_answers_of df_test ! i = correct_letter (df_test ! (35 + i))) \<and>
    cont (answers (scoring_loop llm df_val df_test k targets s0)) (real_answers_of df_test) =
      card {i. i < 20 \<and>
        answers (scoring_loop llm df_val df_test k targets s0) ! i =
          correct_letter (df_test ! (35 + i))} \<and>
    cont (answers (scoring_loop llm df_val df_test k targets s0)) (real_answers_of df_test) =
      cont (answers (scoring_loop llm df_val df_test k targets s0))
        (take 20 (real_answers_of df_test)) \<and>
    (\<forall>z. cont (answers (scoring_loop llm df_val df_test k targets s0))
        (take 20 (real_answers_of df_test) @ [z]) =
      cont (answers (scoring_loop llm df_val df_test k targets s0)) (real_answers_of df_test) \<and>
      grade_line (answers (scoring_loop llm df_val df_test k targets s0))
        (take 20 (real_answers_of df_test) @ [z]) =
      grade_line (answers (scoring_loop llm df_val df_test k targets s0))
        (real_answers_of df_test))"
proof -
  let ?preds = "answers (scoring_loop llm df_val df_test k targets s0)"
  have n: "length ?preds = 20"
    using scoring_loop_complete [OF assms(3)] assms(2) by (simp add: targets_def)
  have m: "length (real_answers_of df_test) = 21"
    using assms(1) by (rule length_real_answers_of)
  have rows: "\<forall>i < 21. real_answers_of df_test ! i = correct_letter (df_test ! (35 + i))"
    using assms(1) by (simp add: real_answers_of_nth)
  have pos: "cont ?preds (real_answers_of df_test) =
      card {i. i < 20 \<and> ?preds ! i = correct_letter (df_test ! (35 + i))}"
    using assms(1) n by (rule cont_positions)
  have c: "cont ?preds (take 20 (real_answers_of df_test)) = cont ?preds (real_answers_of df_test)"
    using cont_take [of ?preds "real_answers_of df_test"] n by simp
  have "cont ?preds (take 20 (real_answers_of df_test) @ [z]) =
      cont ?preds (take 20 (real_answers_of df_test))" for z
    using n m by (intro cont_ignores_rest) simp
  with c have z: "\<forall>z. cont ?preds (take 20 (real_answers_of df_test) @ [z]) =
        cont ?preds (real_answers_of df_test) \<and>
      grade_line ?preds (take 20 (real_answers_of df_test) @ [z]) =
        grade_line ?preds (real_answers_of df_test)"
    by (simp add: grade_line_def)
  from n m rows pos c z show ?thesis
    by (intro conjI) simp_all
qed

theorem extra_truth_ignored_witness:
  "length (answers (scoring_loop steady [] table56 0 targets fresh)) = 20 \<and>
   length (real_answers_of table56) = 21 \<and>
   cont (answers (scoring_loop steady [] table56 0 targets fresh)) (real_answers_of table56) =
     card {i. i < 20 \<and>
       answers (scoring_loop steady [] table56 0 targets fresh) ! i =
         correct_letter (table56 ! (35 + i))} \<and>
   cont (answers (scoring_loop steady [] table56 0 targets fresh)) (real_answers_of table56) =
     cont (answers (scoring_loop steady [] table56 0 targets fresh))
       (take 20 (real_answers_of table56))"
proof -
  have 1: "55 < length table56" by (simp add: table56_def)
  have 2: "answers fresh = []" by (simp add: fresh_def)
  have 3: "halted (scoring_loop steady [] table56 0 targets fresh) = None"
    by code_simp
  from extra_truth_ignored [OF 1 2 3] show ?thesis by blast
qed

section \<open>Properties of the pipeline\<close>

lemma setup_cell_fails_iff:
  "setup_cell dotenv environ = Inl ConfigurationError \<longleftrightarrow>
     environ ''OPENAI_API_KEY'' = None \<and> dotenv ''OPENAI_API_KEY'' = None"
  by (auto simp add: setup_cell_def load_dotenv_def map_add_def split: option.splits)

text \<open>
  C9, as stated, fails: with the key absent from the process environment but present in
  the \<^verbatim>\<open>.env\<close> file, which is the documented way to provide it, \<open>load_dotenv\<close> puts it
  into the environment, the setup cell succeeds, and the run submits its 21 prompts.
\<close>

theorem key_from_dotenv_counterexample:
  "Map.empty ''OPENAI_API_KEY'' = (None :: string option) \<and>
   setup_cell dotenv_with_key Map.empty \<noteq> Inl ConfigurationError \<and>
   halted (notebook dotenv_with_key Map.empty (Inr table56) (Inr table56) 0 0 steady) = None \<and>
   length (calls (notebook dotenv_with_key Map.empty (Inr table56) (Inr table56) 0 0 steady)) = 21"
proof -
  have 1: "setup_cell dotenv_with_key Map.empty \<noteq> Inl ConfigurationError"
    by (simp add: setup_cell_fails_iff dotenv_with_key_def)
  then obtain environ1 where e: "setup_cell dotenv_with_key Map.empty = Inr environ1"
    by (auto simp add: setup_cell_def load_dotenv_def split: option.splits)
  have p: "build_prompt table56 table56 0 0 = Inr (header ''anatomy'' @ render_question row_Q1)"
    by (simp add: build_prompt_def gen_prompt_def format_example_def table56_def)
  have l: "halted (scoring_loop steady table56 table56 0 targets
        (fresh\<lparr>calls := [header ''anatomy'' @ render_question row_Q1]\<rparr>)) = None \<and>
      length (calls (scoring_loop steady table56 table56 0 targets
        (fresh\<lparr>calls := [header ''anatomy'' @ render_question row_Q1]\<rparr>))) = 21"
    by code_simp
  from e p l have "halted (notebook dotenv_with_key Map.empty (Inr table56) (Inr table56) 0 0 steady) = None \<and>
      length (calls (notebook dotenv_with_key Map.empty (Inr table56) (Inr table56) 0 0 steady)) = 21"
    by (simp add: notebook_def steady_def Let_def)
  with 1 show ?thesis by simp
qed

text \<open>
  C9, amended. The setup cell raises exactly when the key is neither in the process
  environment nor in the \<^verbatim>\<open>.env\<close> file that \<open>load_dotenv\<close> reads. In that case the run
  ends at the setup cell and no prompt has been submitted to the model.
\<close>

theorem missing_key_halts:
  "(setup_cell dotenv environ = Inl ConfigurationError \<longleftrightarrow>
      environ ''OPENAI_API_KEY'' = None \<and> dotenv ''OPENAI_API_KEY'' = None) \<and>
   (environ ''OPENAI_API_KEY'' = None \<and> dotenv ''OPENAI_API_KEY'' = None \<longrightarrow>
      halted (notebook dotenv environ read_val read_test k probe llm) = Some ConfigurationError \<and>
      calls (notebook dotenv environ read_val read_test k probe llm) = [])"
proof -
  have "halted (notebook dotenv environ read_val read_test k probe llm) = Some ConfigurationError \<and>
      calls (notebook dotenv environ read_val read_test k probe llm) = []"
    if "setup_cell dotenv environ = Inl ConfigurationError"
    using that by (simp add: notebook_def fresh_def)
  then show ?thesis
    by (simp add: setup_cell_fails_iff)
qed

theorem missing_key_halts_witness:
  "setup_cell Map.empty Map.empty = Inl ConfigurationError \<and>
   halted (notebook Map.empty Map.empty (Inr [row_Q1]) (Inr [row_Q1]) 0 0 steady) =
     Some ConfigurationError \<and>
   calls (notebook Map.empty Map.empty (Inr [row_Q1]) (Inr [row_Q1]) 0 0 steady) = []"
  using missing_key_halts [of Map.empty Map.empty "Inr [row_Q1]" "Inr [row_Q1]" 0 0 steady]
  by simp

end
